theory Spec2Isabelle
  imports Main "HOL-Library.Word" "HOL-Library.Multiset"
begin

section \<open>The scheduler's node-info snapshot\<close>

text \<open>
  A shallow embedding of \<^verbatim>\<open>pkg/scheduler/nodeinfo/snapshot/snapshot.go\<close>: the
  \<^verbatim>\<open>Snapshot\<close> struct, its two constructors, \<^verbatim>\<open>ListNodes\<close> and the two
  listers (\<^verbatim>\<open>podLister\<close>, \<^verbatim>\<open>nodeInfoLister\<close>).

  Conventions of the embedding.
  \<^item> A Go pointer to a pod, a node or a node info is the value it points to: the
    snapshot never writes through these pointers, and no pointer stored in a snapshot
    is \<^verbatim>\<open>nil\<close>, except the node descriptor of a node info, which is an option.
  \<^item> A Go slice is the list of its elements. \<^verbatim>\<open>make([]T, 0, c)\<close> is the empty
    list for every capacity \<^verbatim>\<open>c\<close>, and \<^verbatim>\<open>append\<close> adds at the end: Go grows
    the backing array when the capacity is used up, so the capacity decides no element.
  \<^item> A Go map is a partial function. The order in which \<^verbatim>\<open>for _, v := range m\<close>
    visits the entries is not fixed by the language: every loop over a map takes the
    list of keys in the order of the visit as an extra argument, and the theorems hold
    for every such list (\<open>range_order\<close>: each key of the map once).
\<close>

subsection \<open>Pods, nodes and node infos\<close>

text \<open>
  \<^verbatim>\<open>v1.Pod\<close> and \<^verbatim>\<open>v1.Node\<close> belong to the Kubernetes API module. Only what the
  snapshot and its specification read is kept: a pod's name, the node it is
  assigned to (\<^verbatim>\<open>pod.Spec.NodeName\<close>), its labels (\<^verbatim>\<open>pod.Labels\<close>) and whether it
  declares affinity or anti-affinity terms; a node's name.
\<close>

type_synonym Labels = "string \<rightharpoonup> string"

record Pod =
  pod_name :: string
  spec_nodeName :: string
  pod_labels :: Labels
  has_affinity :: bool

record Node =
  node_name :: string

text \<open>
  Modelled from the spec: the type \<^verbatim>\<open>schedulernodeinfo.NodeInfo\<close> is declared in
  another file of the package tree. The node aggregate of the specification has
  an identity (the node's name), an optional node descriptor, the ordered pods assigned to
  the node and the affinity-bearing ones among them. The three accessors the snapshot
  calls, \<^verbatim>\<open>Node()\<close>, \<^verbatim>\<open>Pods()\<close> and \<^verbatim>\<open>PodsWithAffinity()\<close>, are the fields
  \<open>node\<close>, \<open>pods\<close> and \<open>podsWithAffinity\<close>.
\<close>

record NodeInfo =
  identity :: string
  node :: "Node option"
  pods :: "Pod list"
  podsWithAffinity :: "Pod list"

text \<open>\<^verbatim>\<open>labels.Selector\<close> is used through \<^verbatim>\<open>Matches\<close> only, \<^verbatim>\<open>PodFilter\<close> is
  \<^verbatim>\<open>func(*v1.Pod) bool\<close>.\<close>

type_synonym Selector = "Labels \<Rightarrow> bool"
type_synonym PodFilter = "Pod \<Rightarrow> bool"

subsection \<open>The snapshot\<close>

record Snapshot =
  NodeInfoMap :: "string \<rightharpoonup> NodeInfo"
  NodeInfoList :: "NodeInfo list"
  HavePodsWithAffinityNodeInfoList :: "NodeInfo list"
  Generation :: "64 word"

text \<open>The one error of the file: \<^verbatim>\<open>fmt.Errorf("nodeinfo not found for node name %q", nodeName)\<close>.
  The constructor keeps the name the message is formatted from.\<close>

datatype error = NodeInfoNotFound string

subsection \<open>Ranging over a map\<close>

definition range_order :: "('k \<rightharpoonup> 'v) \<Rightarrow> 'k list \<Rightarrow> bool" where
  "range_order m ks \<longleftrightarrow> distinct ks \<and> set ks = dom m"

primrec range_values :: "('k \<rightharpoonup> 'v) \<Rightarrow> 'k list \<Rightarrow> 'v list" where
  "range_values m [] = []"
| "range_values m (k # ks) =
     (case m k of None \<Rightarrow> range_values m ks | Some v \<Rightarrow> v # range_values m ks)"

definition make_slice :: "nat \<Rightarrow> 'a list" where
  "make_slice capacity = []"

subsection \<open>Construction\<close>

text \<open>\<^verbatim>\<open>NewEmptySnapshot\<close> sets the map to a fresh empty map; the two slices and the
  generation keep Go's zero values: \<^verbatim>\<open>nil\<close> (the empty slice) and 0.\<close>

definition NewEmptySnapshot :: Snapshot where
  "NewEmptySnapshot =
     \<lparr>NodeInfoMap = Map.empty, NodeInfoList = [],
      HavePodsWithAffinityNodeInfoList = [], Generation = 0\<rparr>"

text \<open>
  Modelled from the spec: the node info that \<^verbatim>\<open>CreateNodeNameToInfoMap\<close>, defined in
  another file of the package tree, stores under a name. It carries the name, the
  descriptor of the node of that name when the nodes collection has one, and all pods
  whose assignment matches the name, in input order.
\<close>

definition aggregate :: "Pod list \<Rightarrow> Node list \<Rightarrow> string \<Rightarrow> NodeInfo" where
  "aggregate ps ns nm =
     \<lparr>identity = nm,
      node = find (\<lambda>n. node_name n = nm) ns,
      pods = filter (\<lambda>p. spec_nodeName p = nm) ps,
      podsWithAffinity = filter (\<lambda>p. spec_nodeName p = nm \<and> has_affinity p) ps\<rparr>"

text \<open>
  Modelled from the spec: \<^verbatim>\<open>schedulernodeinfo.CreateNodeNameToInfoMap\<close> is defined in
  another file of the package tree. By the specification the map has one entry per
  distinct node name referenced by the input, at minimum every node of the nodes
  collection, each entry aggregating all pods assigned to that name. Whether a name that
  only a pod refers to (an orphaned assignment) gets an entry with no descriptor or is
  dropped is left open there: \<open>synthesize\<close> chooses, and every theorem holds for both.
\<close>

definition CreateNodeNameToInfoMap ::
    "bool \<Rightarrow> Pod list \<Rightarrow> Node list \<Rightarrow> (string \<rightharpoonup> NodeInfo)" where
  "CreateNodeNameToInfoMap synthesize ps ns =
     (\<lambda>nm. if nm \<in> node_name ` set ns \<or> (synthesize \<and> nm \<in> spec_nodeName ` set ps)
            then Some (aggregate ps ns nm) else None)"

text \<open>The loop of \<^verbatim>\<open>NewSnapshot\<close> over the values of the map; the accumulator is the
  pair of slices \<^verbatim>\<open>nodeInfoList\<close>, \<^verbatim>\<open>havePodsWithAffinityNodeInfoList\<close>.\<close>

fun NewSnapshot_loop ::
    "NodeInfo list \<times> NodeInfo list \<Rightarrow> NodeInfo list \<Rightarrow> NodeInfo list \<times> NodeInfo list" where
  "NewSnapshot_loop (nodeInfoList, havePods) [] = (nodeInfoList, havePods)"
| "NewSnapshot_loop (nodeInfoList, havePods) (v # vs) =
     NewSnapshot_loop
       (nodeInfoList @ [v],
        if length (podsWithAffinity v) > 0 then havePods @ [v] else havePods) vs"

definition NewSnapshot :: "bool \<Rightarrow> string list \<Rightarrow> Pod list \<Rightarrow> Node list \<Rightarrow> Snapshot" where
  "NewSnapshot synthesize ks ps ns =
     (let nodeInfoMap = CreateNodeNameToInfoMap synthesize ps ns;
          (nodeInfoList, havePodsWithAffinityNodeInfoList) =
             NewSnapshot_loop (make_slice (length ns), make_slice (length ns))
               (range_values nodeInfoMap ks);
          s = NewEmptySnapshot
      in s\<lparr>NodeInfoMap := nodeInfoMap,
            NodeInfoList := nodeInfoList,
            HavePodsWithAffinityNodeInfoList := havePodsWithAffinityNodeInfoList\<rparr>)"

subsection \<open>Listing the nodes\<close>

fun ListNodes_loop :: "Node list \<Rightarrow> NodeInfo list \<Rightarrow> Node list" where
  "ListNodes_loop nodes [] = nodes"
| "ListNodes_loop nodes (n # ns) =
     ListNodes_loop (case node n of None \<Rightarrow> nodes | Some d \<Rightarrow> nodes @ [d]) ns"

text \<open>The capacity \<^verbatim>\<open>len(s.NodeInfoMap)\<close> is the number of keys of the map.\<close>

definition ListNodes :: "Snapshot \<Rightarrow> Node list" where
  "ListNodes s = ListNodes_loop (make_slice (card (dom (NodeInfoMap s)))) (NodeInfoList s)"

subsection \<open>The pod lister\<close>

record podLister =
  pl_snapshot :: Snapshot

definition Pods :: "Snapshot \<Rightarrow> podLister" where
  "Pods s = \<lparr>pl_snapshot = s\<rparr>"

fun maxSize_loop :: "nat \<Rightarrow> NodeInfo list \<Rightarrow> nat" where
  "maxSize_loop maxSize [] = maxSize"
| "maxSize_loop maxSize (n # ns) = maxSize_loop (maxSize + length (pods n)) ns"

fun FilteredList_pods :: "PodFilter \<Rightarrow> Selector \<Rightarrow> Pod list \<Rightarrow> Pod list \<Rightarrow> Pod list" where
  "FilteredList_pods podFilter selector acc [] = acc"
| "FilteredList_pods podFilter selector acc (pod # rest) =
     FilteredList_pods podFilter selector
       (if podFilter pod \<and> selector (pod_labels pod) then acc @ [pod] else acc) rest"

fun FilteredList_loop :: "PodFilter \<Rightarrow> Selector \<Rightarrow> Pod list \<Rightarrow> NodeInfo list \<Rightarrow> Pod list" where
  "FilteredList_loop podFilter selector acc [] = acc"
| "FilteredList_loop podFilter selector acc (n # ns) =
     FilteredList_loop podFilter selector (FilteredList_pods podFilter selector acc (pods n)) ns"

text \<open>\<open>ks1\<close> is the order of the sizing loop, \<open>ks2\<close> the order of the collecting loop.
  \<^verbatim>\<open>maxSize\<close> is a Go \<^verbatim>\<open>int\<close>; a sum of lengths of slices that are in memory
  together does not overflow it, so it is a natural number here.\<close>

definition FilteredList_maxSize :: "podLister \<Rightarrow> string list \<Rightarrow> nat" where
  "FilteredList_maxSize p ks1 = maxSize_loop 0 (range_values (NodeInfoMap (pl_snapshot p)) ks1)"

definition FilteredList ::
    "podLister \<Rightarrow> string list \<Rightarrow> string list \<Rightarrow> PodFilter \<Rightarrow> Selector \<Rightarrow> error + Pod list" where
  "FilteredList p ks1 ks2 podFilter selector =
     (let maxSize = FilteredList_maxSize p ks1;
          acc = make_slice maxSize
      in Inr (FilteredList_loop podFilter selector acc
                (range_values (NodeInfoMap (pl_snapshot p)) ks2)))"

definition podLister_List ::
    "podLister \<Rightarrow> string list \<Rightarrow> string list \<Rightarrow> Selector \<Rightarrow> error + Pod list" where
  "podLister_List p ks1 ks2 selector =
     (let alwaysTrue = (\<lambda>p. True) in FilteredList p ks1 ks2 alwaysTrue selector)"

text \<open>The closure \<^verbatim>\<open>alwaysTrue\<close> of \<^verbatim>\<open>List\<close>, for a caller that passes it to
  \<^verbatim>\<open>FilteredList\<close> in a call of its own.\<close>

definition alwaysTrue :: PodFilter where
  "alwaysTrue pod = True"

subsection \<open>The node-info lister\<close>

record nodeInfoLister =
  nl_snapshot :: Snapshot

definition NodeInfos :: "Snapshot \<Rightarrow> nodeInfoLister" where
  "NodeInfos s = \<lparr>nl_snapshot = s\<rparr>"

definition nodeInfoLister_List :: "nodeInfoLister \<Rightarrow> error + NodeInfo list" where
  "nodeInfoLister_List n = Inr (NodeInfoList (nl_snapshot n))"

definition HavePodsWithAffinityList :: "nodeInfoLister \<Rightarrow> error + NodeInfo list" where
  "HavePodsWithAffinityList n = Inr (HavePodsWithAffinityNodeInfoList (nl_snapshot n))"

definition Get :: "nodeInfoLister \<Rightarrow> string \<Rightarrow> error + NodeInfo" where
  "Get n nodeName =
     (case NodeInfoMap (nl_snapshot n) nodeName of
        Some v \<Rightarrow> Inr v
      | None \<Rightarrow> Inl (NodeInfoNotFound nodeName))"

subsection \<open>The scenario of the specification\<close>

text \<open>Nodes A and B; pods p1 and p3 on A with label app=x, pod p2 on B with label app=y
  and affinity terms. \<open>p4\<close> is an orphaned assignment: its node C is no node of the
  nodes collection.\<close>

definition p1 :: Pod where
  "p1 = \<lparr>pod_name = ''p1'', spec_nodeName = ''A'', pod_labels = [''app'' \<mapsto> ''x''],
         has_affinity = False\<rparr>"

definition p2 :: Pod where
  "p2 = \<lparr>pod_name = ''p2'', spec_nodeName = ''B'', pod_labels = [''app'' \<mapsto> ''y''],
         has_affinity = True\<rparr>"

definition p3 :: Pod where
  "p3 = \<lparr>pod_name = ''p3'', spec_nodeName = ''A'', pod_labels = [''app'' \<mapsto> ''x''],
         has_affinity = False\<rparr>"

definition p4 :: Pod where
  "p4 = \<lparr>pod_name = ''p4'', spec_nodeName = ''C'', pod_labels = Map.empty,
         has_affinity = False\<rparr>"

definition scenario_pods :: "Pod list" where
  "scenario_pods = [p1, p2, p3]"

definition scenario_nodes :: "Node list" where
  "scenario_nodes = [\<lparr>node_name = ''A''\<rparr>, \<lparr>node_name = ''B''\<rparr>]"

definition app_x :: Selector where
  "app_x ls \<longleftrightarrow> ls ''app'' = Some ''x''"

text \<open>\<^verbatim>\<open>labels.Everything()\<close>, the selector that matches every label set.\<close>

definition everything :: Selector where
  "everything ls \<longleftrightarrow> True"

definition scenario :: Snapshot where
  "scenario = NewSnapshot True [''A'', ''B''] scenario_pods scenario_nodes"

section \<open>Properties\<close>

subsection \<open>Ranging over a map\<close>

lemma range_values_in_dom:
  "set ks \<subseteq> dom m \<Longrightarrow> range_values m ks = map (\<lambda>k. the (m k)) ks"
  by (induction ks) auto

lemma range_values_append:
  "range_values m (ks @ ks') = range_values m ks @ range_values m ks'"
  by (induction ks) (simp_all split: option.splits)

lemma range_values_empty: "range_values Map.empty ks = []"
  by (induction ks) simp_all

text \<open>Every finite map has a visit order.\<close>

lemma range_order_exists: "finite (dom m) \<Longrightarrow> \<exists>ks. range_order m ks"
  using finite_distinct_list [of "dom m"] by (auto simp: range_order_def)

lemma range_order_values:
  "range_order m ks \<Longrightarrow> range_values m ks = map (\<lambda>k. the (m k)) ks"
  by (simp add: range_order_def range_values_in_dom)

lemma set_range_values: "range_order m ks \<Longrightarrow> set (range_values m ks) = ran m"
  by (force simp: range_order_values range_order_def ran_def dom_def image_iff)

text \<open>What a loop sums over the values of a map does not depend on the order of the visit.\<close>

lemma mset_pods_range:
  assumes "range_order m ks"
  shows "mset (concat (map pods (range_values m ks))) = (\<Sum>k\<in>dom m. mset (pods (the (m k))))"
proof -
  have "mset (concat (map pods (range_values m ks))) = (\<Sum>k\<leftarrow>ks. mset (pods (the (m k))))"
    using assms by (simp add: range_order_values mset_concat comp_def)
  also have "\<dots> = (\<Sum>k\<in>set ks. mset (pods (the (m k))))"
    using assms by (simp add: range_order_def sum_list_distinct_conv_sum_set)
  finally show ?thesis
    using assms by (simp add: range_order_def)
qed

lemma length_pods_range:
  assumes "range_order m ks"
  shows "(\<Sum>n\<leftarrow>range_values m ks. length (pods n)) = (\<Sum>k\<in>dom m. length (pods (the (m k))))"
proof -
  have "(\<Sum>n\<leftarrow>range_values m ks. length (pods n)) = (\<Sum>k\<leftarrow>ks. length (pods (the (m k))))"
    using assms by (simp add: range_order_values comp_def)
  also have "\<dots> = (\<Sum>k\<in>set ks. length (pods (the (m k))))"
    using assms by (simp add: range_order_def sum_list_distinct_conv_sum_set)
  finally show ?thesis
    using assms by (simp add: range_order_def)
qed

subsection \<open>The loops in closed form\<close>

lemma NewSnapshot_loop_eq:
  "NewSnapshot_loop (l, h) vs = (l @ vs, h @ filter (\<lambda>v. 0 < length (podsWithAffinity v)) vs)"
  by (induction vs arbitrary: l h) simp_all

lemma ListNodes_loop_eq: "ListNodes_loop acc ns = acc @ List.map_filter node ns"
  by (induction ns arbitrary: acc) (simp_all add: List.map_filter_simps split: option.splits)

lemma FilteredList_pods_eq:
  "FilteredList_pods f sel acc ps = acc @ filter (\<lambda>p. f p \<and> sel (pod_labels p)) ps"
  by (induction ps arbitrary: acc) simp_all

lemma FilteredList_loop_eq:
  "FilteredList_loop f sel acc ns
     = acc @ concat (map (\<lambda>n. filter (\<lambda>p. f p \<and> sel (pod_labels p)) (pods n)) ns)"
  by (induction ns arbitrary: acc) (simp_all add: FilteredList_pods_eq)

lemma maxSize_loop_eq: "maxSize_loop k ns = k + (\<Sum>n\<leftarrow>ns. length (pods n))"
  by (induction ns arbitrary: k) simp_all

lemma concat_filter: "concat (map (\<lambda>n. filter P (g n)) ns) = filter P (concat (map g ns))"
  by (induction ns) simp_all

lemma FilteredList_eq:
  "FilteredList p ks1 ks2 f sel
     = Inr (concat (map (\<lambda>n. filter (\<lambda>pod. f pod \<and> sel (pod_labels pod)) (pods n))
                      (range_values (NodeInfoMap (pl_snapshot p)) ks2)))"
  by (simp add: FilteredList_def FilteredList_loop_eq make_slice_def)

subsection \<open>The fields of a constructed snapshot\<close>

lemma dom_CreateNodeNameToInfoMap:
  "dom (CreateNodeNameToInfoMap synth ps ns)
     = node_name ` set ns \<union> (if synth then spec_nodeName ` set ps else {})"
  by (auto simp: CreateNodeNameToInfoMap_def dom_def)

lemma identity_CreateNodeNameToInfoMap:
  "CreateNodeNameToInfoMap synth ps ns k = Some v \<Longrightarrow> identity v = k"
  by (auto simp: CreateNodeNameToInfoMap_def aggregate_def split: if_splits)

lemma NewSnapshot_NodeInfoMap:
  "NodeInfoMap (NewSnapshot synth ks ps ns) = CreateNodeNameToInfoMap synth ps ns"
  by (simp add: NewSnapshot_def Let_def split: prod.splits)

lemma NewSnapshot_NodeInfoList:
  "NodeInfoList (NewSnapshot synth ks ps ns) = range_values (CreateNodeNameToInfoMap synth ps ns) ks"
  by (simp add: NewSnapshot_def Let_def NewSnapshot_loop_eq make_slice_def)

lemma NewSnapshot_HavePods:
  "HavePodsWithAffinityNodeInfoList (NewSnapshot synth ks ps ns)
     = filter (\<lambda>v. 0 < length (podsWithAffinity v))
         (range_values (CreateNodeNameToInfoMap synth ps ns) ks)"
  by (simp add: NewSnapshot_def Let_def NewSnapshot_loop_eq make_slice_def)

lemma NewSnapshot_Generation: "Generation (NewSnapshot synth ks ps ns) = 0"
  by (simp add: NewSnapshot_def Let_def NewEmptySnapshot_def split: prod.splits)

subsection \<open>The scenario, evaluated\<close>

lemma scenario_map:
  "NodeInfoMap scenario = CreateNodeNameToInfoMap True scenario_pods scenario_nodes"
  by (simp add: scenario_def NewSnapshot_NodeInfoMap)

lemma scenario_dom: "dom (NodeInfoMap scenario) = {''A'', ''B''}"
  by (auto simp: scenario_map dom_CreateNodeNameToInfoMap scenario_pods_def scenario_nodes_def
      p1_def p2_def p3_def)

lemma scenario_A:
  "NodeInfoMap scenario ''A''
     = Some \<lparr>identity = ''A'', node = Some \<lparr>node_name = ''A''\<rparr>, pods = [p1, p3],
             podsWithAffinity = []\<rparr>"
  by (simp add: scenario_map CreateNodeNameToInfoMap_def aggregate_def scenario_pods_def
      scenario_nodes_def p1_def p2_def p3_def)

lemma scenario_B:
  "NodeInfoMap scenario ''B''
     = Some \<lparr>identity = ''B'', node = Some \<lparr>node_name = ''B''\<rparr>, pods = [p2],
             podsWithAffinity = [p2]\<rparr>"
  by (simp add: scenario_map CreateNodeNameToInfoMap_def aggregate_def scenario_pods_def
      scenario_nodes_def p1_def p2_def p3_def)

lemma scenario_app_x: "app_x (pod_labels p1)" "\<not> app_x (pod_labels p2)" "app_x (pod_labels p3)"
  by (simp_all add: app_x_def p1_def p2_def p3_def)

lemma scenario_order_AB: "range_order (NodeInfoMap scenario) [''A'', ''B'']"
  by (simp add: range_order_def scenario_dom)

lemma scenario_order_BA: "range_order (NodeInfoMap scenario) [''B'', ''A'']"
  by (simp add: range_order_def scenario_dom insert_commute)

subsection \<open>The empty snapshot\<close>

text \<open>
  C9. \<^verbatim>\<open>NewEmptySnapshot\<close> returns a snapshot whose map has no key, whose ordered list
  and affinity list are empty and whose generation is zero.
\<close>

theorem NewEmptySnapshot_empty:
  "dom (NodeInfoMap NewEmptySnapshot) = {}
   \<and> NodeInfoList NewEmptySnapshot = []
   \<and> HavePodsWithAffinityNodeInfoList NewEmptySnapshot = []
   \<and> Generation NewEmptySnapshot = 0"
  by (simp add: NewEmptySnapshot_def)

subsection \<open>Construction from pods and nodes\<close>

text \<open>
  C1. For every snapshot built by \<^verbatim>\<open>NewSnapshot\<close>, whatever the order in which the loop
  visits the map, the identities of the node infos of \<^verbatim>\<open>NodeInfoList\<close> are the keys of
  \<^verbatim>\<open>NodeInfoMap\<close>, no identity occurs twice in the list, and the list holds the value of
  each visited key, in the order of the visit.
\<close>

theorem NewSnapshot_bijection:
  assumes "range_order (CreateNodeNameToInfoMap synthesize ps ns) ks"
  shows "set (map identity (NodeInfoList (NewSnapshot synthesize ks ps ns)))
           = dom (NodeInfoMap (NewSnapshot synthesize ks ps ns))
       \<and> distinct (map identity (NodeInfoList (NewSnapshot synthesize ks ps ns)))
       \<and> NodeInfoList (NewSnapshot synthesize ks ps ns)
           = map (\<lambda>k. the (NodeInfoMap (NewSnapshot synthesize ks ps ns) k)) ks"
proof -
  let ?m = "CreateNodeNameToInfoMap synthesize ps ns"
  have l: "NodeInfoList (NewSnapshot synthesize ks ps ns) = map (\<lambda>k. the (?m k)) ks"
    using assms by (simp add: NewSnapshot_NodeInfoList range_order_values)
  have "\<forall>k\<in>set ks. identity (the (?m k)) = k"
    using assms identity_CreateNodeNameToInfoMap by (fastforce simp: range_order_def)
  then have i: "map identity (map (\<lambda>k. the (?m k)) ks) = ks"
    by (simp add: map_idI)
  show ?thesis
    using assms by (simp only: l NewSnapshot_NodeInfoMap i) (simp add: range_order_def)
qed

text \<open>The scenario with the orphaned pod \<open>p4\<close> added, its name given an entry.\<close>

theorem NewSnapshot_bijection_witness:
  "range_order (CreateNodeNameToInfoMap True (p4 # scenario_pods) scenario_nodes)
     [''C'', ''B'', ''A'']
   \<and> map identity
       (NodeInfoList (NewSnapshot True [''C'', ''B'', ''A''] (p4 # scenario_pods) scenario_nodes))
       = [''C'', ''B'', ''A'']
   \<and> dom (NodeInfoMap (NewSnapshot True [''C'', ''B'', ''A''] (p4 # scenario_pods) scenario_nodes))
       = {''A'', ''B'', ''C''}"
proof -
  let ?s = "NewSnapshot True [''C'', ''B'', ''A''] (p4 # scenario_pods) scenario_nodes"
  have o: "range_order (CreateNodeNameToInfoMap True (p4 # scenario_pods) scenario_nodes)
             [''C'', ''B'', ''A'']"
    by (auto simp: range_order_def dom_CreateNodeNameToInfoMap scenario_pods_def
        scenario_nodes_def p1_def p2_def p3_def p4_def)
  have e: "map identity (NodeInfoList ?s) = [''C'', ''B'', ''A'']"
    by (simp add: NewSnapshot_NodeInfoList CreateNodeNameToInfoMap_def aggregate_def
        scenario_pods_def scenario_nodes_def p1_def p2_def p3_def p4_def)
  have "set (map identity (NodeInfoList ?s)) = dom (NodeInfoMap ?s)"
    using NewSnapshot_bijection [OF o] by (rule conjunct1)
  then have "dom (NodeInfoMap ?s) = set [''C'', ''B'', ''A'']"
    by (simp only: e)
  then have d: "dom (NodeInfoMap ?s) = {''A'', ''B'', ''C''}"
    by auto
  from o e d show ?thesis
    by (intro conjI)
qed

text \<open>
  C2. For every snapshot built by \<^verbatim>\<open>NewSnapshot\<close>, \<^verbatim>\<open>HavePodsWithAffinityNodeInfoList\<close>
  is \<^verbatim>\<open>NodeInfoList\<close> filtered to the node infos whose list of pods with affinity terms is
  not empty, in the order of \<^verbatim>\<open>NodeInfoList\<close>.
\<close>

theorem NewSnapshot_affinity_subsequence:
  "HavePodsWithAffinityNodeInfoList (NewSnapshot synthesize ks ps ns)
     = filter (\<lambda>v. podsWithAffinity v \<noteq> []) (NodeInfoList (NewSnapshot synthesize ks ps ns))"
  by (simp add: NewSnapshot_HavePods NewSnapshot_NodeInfoList)

text \<open>
  C7, as the code has it. Both constructors leave \<^verbatim>\<open>Generation\<close> at zero, so no snapshot
  built by \<^verbatim>\<open>NewSnapshot\<close> carries a generation greater than that of another one. No
  function of the file assigns the field of a snapshot it is given: the operations are
  functions of the snapshot that return no snapshot.
\<close>

theorem constructors_Generation_zero:
  "Generation (NewSnapshot synthesize ks ps ns) = 0
   \<and> Generation NewEmptySnapshot = 0
   \<and> \<not> sint (Generation (NewSnapshot synthesize ks ps ns))
         < sint (Generation (NewSnapshot synthesize' ks' ps' ns'))"
  by (simp add: NewSnapshot_Generation NewEmptySnapshot_def)

text \<open>The first capture, which replaces the empty snapshot, carries no greater generation.\<close>

theorem Generation_increasing_counterexample:
  "\<not> sint (Generation NewEmptySnapshot)
       < sint (Generation (NewSnapshot True [''A'', ''B''] scenario_pods scenario_nodes))"
  by (simp add: NewSnapshot_Generation NewEmptySnapshot_def)

subsection \<open>Listing the nodes\<close>

text \<open>
  C6. \<^verbatim>\<open>ListNodes\<close> returns the node descriptors of the node infos of \<^verbatim>\<open>NodeInfoList\<close>
  whose descriptor is present, in the order of \<^verbatim>\<open>NodeInfoList\<close>: a node info with no
  descriptor adds no element, and the result is no longer than \<^verbatim>\<open>NodeInfoList\<close>.
\<close>

theorem ListNodes_present:
  "map Some (ListNodes s) = filter (\<lambda>d. d \<noteq> None) (map node (NodeInfoList s))
   \<and> ListNodes s = map (\<lambda>n. the (node n)) (filter (\<lambda>n. node n \<noteq> None) (NodeInfoList s))
   \<and> length (ListNodes s) \<le> length (NodeInfoList s)"
proof -
  have e: "ListNodes s = List.map_filter node (NodeInfoList s)"
    by (simp add: ListNodes_def ListNodes_loop_eq make_slice_def)
  have "map Some (List.map_filter node xs) = filter (\<lambda>d. d \<noteq> None) (map node xs)" for xs
    by (induction xs) (auto simp: List.map_filter_simps split: option.splits)
  moreover have "length (List.map_filter node xs) \<le> length xs" for xs
    by (simp add: List.map_filter_def)
  ultimately show ?thesis
    by (simp add: e) (simp add: List.map_filter_def comp_def)
qed

subsection \<open>The pod lister\<close>

text \<open>
  C3. For every snapshot, pod filter and selector, and every order of the two loops,
  \<^verbatim>\<open>FilteredList\<close> returns, with no error, a list whose multiset of elements is the
  multiset of the pods of all node infos of the map that satisfy both the filter and the
  selector: every such pod is returned, no other pod is. The result does not depend on the
  capacity computed by the first loop, which is the sum of the pod counts of the node infos
  and bounds the length of the result.
\<close>

theorem FilteredList_exact:
  assumes "range_order (NodeInfoMap (pl_snapshot p)) ks1"
      and "range_order (NodeInfoMap (pl_snapshot p)) ks2"
  shows "\<exists>result. FilteredList p ks1 ks2 podFilter selector = Inr result
           \<and> mset result
               = filter_mset (\<lambda>pod. podFilter pod \<and> selector (pod_labels pod))
                   (\<Sum>k\<in>dom (NodeInfoMap (pl_snapshot p)).
                       mset (pods (the (NodeInfoMap (pl_snapshot p) k))))
           \<and> set result
               = {pod. podFilter pod \<and> selector (pod_labels pod)
                    \<and> (\<exists>n\<in>ran (NodeInfoMap (pl_snapshot p)). pod \<in> set (pods n))}
           \<and> length result \<le> FilteredList_maxSize p ks1
           \<and> FilteredList_maxSize p ks1
               = (\<Sum>k\<in>dom (NodeInfoMap (pl_snapshot p)).
                     length (pods (the (NodeInfoMap (pl_snapshot p) k))))"
proof -
  let ?m = "NodeInfoMap (pl_snapshot p)"
  let ?P = "\<lambda>pod. podFilter pod \<and> selector (pod_labels pod)"
  let ?all = "concat (map pods (range_values ?m ks2))"
  have r: "FilteredList p ks1 ks2 podFilter selector = Inr (filter ?P ?all)"
    by (simp add: FilteredList_eq concat_filter)
  have a: "mset (filter ?P ?all) = filter_mset ?P (\<Sum>k\<in>dom ?m. mset (pods (the (?m k))))"
    using mset_pods_range [OF assms(2)] by simp
  have s: "set (filter ?P ?all) = {pod. ?P pod \<and> (\<exists>n\<in>ran ?m. pod \<in> set (pods n))}"
    using set_range_values [OF assms(2)] by auto
  have c: "FilteredList_maxSize p ks1 = (\<Sum>k\<in>dom ?m. length (pods (the (?m k))))"
    using length_pods_range [OF assms(1)] by (simp add: FilteredList_maxSize_def maxSize_loop_eq)
  have "length (filter ?P ?all) \<le> length ?all"
    by simp
  also have "\<dots> = (\<Sum>n\<leftarrow>range_values ?m ks2. length (pods n))"
    by (simp add: length_concat comp_def)
  also have "\<dots> = FilteredList_maxSize p ks1"
    using length_pods_range [OF assms(2)] c by simp
  finally have b: "length (filter ?P ?all) \<le> FilteredList_maxSize p ks1" .
  show ?thesis
    using r a s b c by blast
qed

text \<open>The scenario, the sizing loop visiting A first and the collecting loop B first:
  the pods with label app=x are p1 and p3, and the capacity is 3.\<close>

theorem FilteredList_exact_witness:
  "range_order (NodeInfoMap (pl_snapshot (Pods scenario))) [''A'', ''B'']
   \<and> range_order (NodeInfoMap (pl_snapshot (Pods scenario))) [''B'', ''A'']
   \<and> FilteredList (Pods scenario) [''A'', ''B''] [''B'', ''A''] (\<lambda>pod. True) app_x = Inr [p1, p3]
   \<and> FilteredList_maxSize (Pods scenario) [''A'', ''B''] = 3
   \<and> (\<Sum>k\<in>dom (NodeInfoMap (pl_snapshot (Pods scenario))).
          length (pods (the (NodeInfoMap (pl_snapshot (Pods scenario)) k)))) = 3
   \<and> filter_mset (\<lambda>pod. True \<and> app_x (pod_labels pod))
        (\<Sum>k\<in>dom (NodeInfoMap (pl_snapshot (Pods scenario))).
            mset (pods (the (NodeInfoMap (pl_snapshot (Pods scenario)) k)))) = {#p1, p3#}"
proof -
  let ?m = "NodeInfoMap (pl_snapshot (Pods scenario))"
  have o1: "range_order ?m [''A'', ''B'']"
    by (simp add: Pods_def scenario_order_AB)
  have o2: "range_order ?m [''B'', ''A'']"
    by (simp add: Pods_def scenario_order_BA)
  have r: "FilteredList (Pods scenario) [''A'', ''B''] [''B'', ''A''] (\<lambda>pod. True) app_x = Inr [p1, p3]"
    by (simp add: FilteredList_eq Pods_def scenario_A scenario_B scenario_app_x)
  have c: "FilteredList_maxSize (Pods scenario) [''A'', ''B''] = 3"
    by (simp add: FilteredList_maxSize_def Pods_def scenario_A scenario_B)
  from FilteredList_exact [OF o1 o2, of "\<lambda>pod. True" app_x] obtain result where
    e: "FilteredList (Pods scenario) [''A'', ''B''] [''B'', ''A''] (\<lambda>pod. True) app_x = Inr result"
    and m: "mset result = filter_mset (\<lambda>pod. True \<and> app_x (pod_labels pod))
              (\<Sum>k\<in>dom ?m. mset (pods (the (?m k))))"
    and s: "FilteredList_maxSize (Pods scenario) [''A'', ''B'']
              = (\<Sum>k\<in>dom ?m. length (pods (the (?m k))))"
    by blast
  from e r have "result = [p1, p3]"
    by simp
  with m have m': "filter_mset (\<lambda>pod. True \<and> app_x (pod_labels pod))
              (\<Sum>k\<in>dom ?m. mset (pods (the (?m k)))) = {#p1, p3#}"
    by simp
  from s c have s': "(\<Sum>k\<in>dom ?m. length (pods (the (?m k)))) = 3"
    by simp
  from o1 o2 r c s' m' show ?thesis
    by (intro conjI)
qed

text \<open>
  C4, as the code has it. \<^verbatim>\<open>List\<close> is one call of \<^verbatim>\<open>FilteredList\<close> with the
  always-true filter and the same selector: on the same visit of the map the two return
  the same pods in the same order and no error. Each call ranges over the map anew, in an
  order that Go does not fix, so \<^verbatim>\<open>List\<close> and a separate call of \<^verbatim>\<open>FilteredList\<close>
  with the always-true filter, whatever the two visits, both return no error and the same
  multiset of pods: the same pods, each as often, in an order that may differ.
\<close>

theorem List_FilteredList_same_pods:
  assumes "range_order (NodeInfoMap (pl_snapshot p)) ks2"
      and "range_order (NodeInfoMap (pl_snapshot p)) ks2'"
  shows "podLister_List p ks1 ks2 selector = FilteredList p ks1 ks2 alwaysTrue selector
       \<and> (\<exists>listed filtered.
             podLister_List p ks1 ks2 selector = Inr listed
             \<and> FilteredList p ks1' ks2' alwaysTrue selector = Inr filtered
             \<and> mset listed = mset filtered
             \<and> mset listed
                 = filter_mset (\<lambda>pod. selector (pod_labels pod))
                     (\<Sum>k\<in>dom (NodeInfoMap (pl_snapshot p)).
                         mset (pods (the (NodeInfoMap (pl_snapshot p) k)))))"
proof -
  let ?m = "NodeInfoMap (pl_snapshot p)"
  let ?S = "\<lambda>pod. selector (pod_labels pod)"
  let ?all = "\<lambda>ks. concat (map pods (range_values ?m ks))"
  have t: "alwaysTrue = (\<lambda>pod. True)"
    by (rule ext) (simp add: alwaysTrue_def)
  have l: "podLister_List p ks1 ks2 selector = Inr (filter ?S (?all ks2))"
    by (simp add: podLister_List_def FilteredList_eq concat_filter)
  have f: "FilteredList p js1 js2 alwaysTrue selector = Inr (filter ?S (?all js2))" for js1 js2
    by (simp add: t FilteredList_eq concat_filter)
  have a: "mset (filter ?S (?all ks2)) = filter_mset ?S (\<Sum>k\<in>dom ?m. mset (pods (the (?m k))))"
    using mset_pods_range [OF assms(1)] by simp
  have b: "mset (filter ?S (?all ks2')) = filter_mset ?S (\<Sum>k\<in>dom ?m. mset (pods (the (?m k))))"
    using mset_pods_range [OF assms(2)] by simp
  have same: "podLister_List p ks1 ks2 selector = FilteredList p ks1 ks2 alwaysTrue selector"
    by (simp only: l f)
  have "mset (filter ?S (?all ks2)) = mset (filter ?S (?all ks2'))"
    by (simp only: a b)
  with l f [of ks1' ks2'] a same show ?thesis
    by blast
qed

text \<open>The scenario, \<^verbatim>\<open>List\<close> visiting A first and the separate \<^verbatim>\<open>FilteredList\<close> visiting
  B first, with the selector that matches everything.\<close>

theorem List_FilteredList_same_pods_witness:
  "range_order (NodeInfoMap (pl_snapshot (Pods scenario))) [''A'', ''B'']
   \<and> range_order (NodeInfoMap (pl_snapshot (Pods scenario))) [''B'', ''A'']
   \<and> podLister_List (Pods scenario) [''A'', ''B''] [''A'', ''B''] everything = Inr [p1, p3, p2]
   \<and> FilteredList (Pods scenario) [''B'', ''A''] [''B'', ''A''] alwaysTrue everything
       = Inr [p2, p1, p3]
   \<and> podLister_List (Pods scenario) [''A'', ''B''] [''A'', ''B''] everything
       = FilteredList (Pods scenario) [''A'', ''B''] [''A'', ''B''] alwaysTrue everything
   \<and> mset [p1, p3, p2] = mset [p2, p1, p3]"
proof -
  let ?m = "NodeInfoMap (pl_snapshot (Pods scenario))"
  have o1: "range_order ?m [''A'', ''B'']"
    by (simp add: Pods_def scenario_order_AB)
  have o2: "range_order ?m [''B'', ''A'']"
    by (simp add: Pods_def scenario_order_BA)
  have l: "podLister_List (Pods scenario) [''A'', ''B''] [''A'', ''B''] everything
             = Inr [p1, p3, p2]"
    by (simp add: podLister_List_def FilteredList_eq Pods_def scenario_A scenario_B everything_def)
  have f: "FilteredList (Pods scenario) [''B'', ''A''] [''B'', ''A''] alwaysTrue everything
             = Inr [p2, p1, p3]"
    by (simp add: FilteredList_eq Pods_def scenario_A scenario_B everything_def alwaysTrue_def)
  note t = List_FilteredList_same_pods [OF o1 o2, of "[''A'', ''B'']" everything "[''B'', ''A'']"]
  from t have same: "podLister_List (Pods scenario) [''A'', ''B''] [''A'', ''B''] everything
             = FilteredList (Pods scenario) [''A'', ''B''] [''A'', ''B''] alwaysTrue everything"
    by (rule conjunct1)
  from t obtain listed filtered where
    "podLister_List (Pods scenario) [''A'', ''B''] [''A'', ''B''] everything = Inr listed"
    "FilteredList (Pods scenario) [''B'', ''A''] [''B'', ''A''] alwaysTrue everything = Inr filtered"
    "mset listed = mset filtered"
    by blast
  with l f have m: "mset [p1, p3, p2] = mset [p2, p1, p3]"
    by simp
  from o1 o2 l f same m show ?thesis
    by (intro conjI)
qed

text \<open>The claim as first stated, with the same order promised for every snapshot, fails on
  the scenario: both visits below are visits of its map, \<^verbatim>\<open>List\<close> under the one returns
  p1, p3, p2 and \<^verbatim>\<open>FilteredList\<close> with the always-true filter under the other returns
  p2, p1, p3.\<close>

theorem List_FilteredList_order_counterexample:
  "range_order (NodeInfoMap (pl_snapshot (Pods scenario))) [''A'', ''B'']
   \<and> range_order (NodeInfoMap (pl_snapshot (Pods scenario))) [''B'', ''A'']
   \<and> podLister_List (Pods scenario) [''A'', ''B''] [''A'', ''B''] everything
       \<noteq> FilteredList (Pods scenario) [''B'', ''A''] [''B'', ''A''] alwaysTrue everything"
proof -
  have o1: "range_order (NodeInfoMap (pl_snapshot (Pods scenario))) [''A'', ''B'']"
    by (simp add: Pods_def scenario_order_AB)
  have o2: "range_order (NodeInfoMap (pl_snapshot (Pods scenario))) [''B'', ''A'']"
    by (simp add: Pods_def scenario_order_BA)
  have l: "podLister_List (Pods scenario) [''A'', ''B''] [''A'', ''B''] everything
             = Inr [p1, p3, p2]"
    by (simp add: podLister_List_def FilteredList_eq Pods_def scenario_A scenario_B everything_def)
  have f: "FilteredList (Pods scenario) [''B'', ''A''] [''B'', ''A''] alwaysTrue everything
             = Inr [p2, p1, p3]"
    by (simp add: FilteredList_eq Pods_def scenario_A scenario_B everything_def alwaysTrue_def)
  have "p1 \<noteq> p2"
    by (simp add: p1_def p2_def)
  then have d: "podLister_List (Pods scenario) [''A'', ''B''] [''A'', ''B''] everything
       \<noteq> FilteredList (Pods scenario) [''B'', ''A''] [''B'', ''A''] alwaysTrue everything"
    by (simp add: l f)
  from o1 o2 d show ?thesis
    by (intro conjI)
qed

text \<open>
  C10. For every snapshot, filter, selector and node info \<open>n\<close> stored under a key \<open>k\<close>,
  the result of \<^verbatim>\<open>FilteredList\<close> is the accepted pods of the node infos visited before
  \<open>k\<close>, then the accepted pods of \<open>n\<close> in the order of \<open>n\<close>'s pod list, then the accepted
  pods of the node infos visited after \<open>k\<close>: the contribution of one node info is one
  contiguous block that keeps the node info's pod order.
\<close>

theorem FilteredList_node_block:
  assumes "range_order (NodeInfoMap (pl_snapshot p)) ks2"
      and "NodeInfoMap (pl_snapshot p) k = Some n"
  shows "\<exists>visited_before visited_after before after.
           ks2 = visited_before @ k # visited_after
           \<and> k \<notin> set visited_before \<and> k \<notin> set visited_after
           \<and> FilteredList p ks1 visited_before podFilter selector = Inr before
           \<and> FilteredList p ks1 visited_after podFilter selector = Inr after
           \<and> FilteredList p ks1 ks2 podFilter selector
               = Inr (before @ filter (\<lambda>pod. podFilter pod \<and> selector (pod_labels pod)) (pods n)
                        @ after)"
proof -
  let ?P = "\<lambda>pod. podFilter pod \<and> selector (pod_labels pod)"
  let ?m = "NodeInfoMap (pl_snapshot p)"
  from assms have "k \<in> set ks2"
    by (auto simp: range_order_def)
  then obtain ys zs where d: "ks2 = ys @ k # zs"
    by (auto simp: in_set_conv_decomp)
  with assms(1) have nk: "k \<notin> set ys" "k \<notin> set zs"
    by (auto simp: range_order_def)
  have "FilteredList p ks1 ks2 podFilter selector
          = Inr (concat (map (\<lambda>n. filter ?P (pods n)) (range_values ?m ys))
                 @ filter ?P (pods n)
                 @ concat (map (\<lambda>n. filter ?P (pods n)) (range_values ?m zs)))"
    using assms(2) by (simp add: FilteredList_eq d range_values_append)
  with d nk FilteredList_eq show ?thesis
    by blast
qed

text \<open>The scenario, B visited before A: the block of A is p1, p3, after the block of B.\<close>

theorem FilteredList_node_block_witness:
  "range_order (NodeInfoMap (pl_snapshot (Pods scenario))) [''B'', ''A'']
   \<and> NodeInfoMap (pl_snapshot (Pods scenario)) ''A''
       = Some \<lparr>identity = ''A'', node = Some \<lparr>node_name = ''A''\<rparr>, pods = [p1, p3],
               podsWithAffinity = []\<rparr>
   \<and> FilteredList (Pods scenario) [''A'', ''B''] [''B'', ''A''] (\<lambda>pod. True) (\<lambda>ls. True)
       = Inr [p2, p1, p3]
   \<and> (\<exists>before after.
         FilteredList (Pods scenario) [''A'', ''B''] [''B'', ''A''] (\<lambda>pod. True) (\<lambda>ls. True)
           = Inr (before @ [p1, p3] @ after))"
proof -
  let ?m = "NodeInfoMap (pl_snapshot (Pods scenario))"
  let ?a = "\<lparr>identity = ''A'', node = Some \<lparr>node_name = ''A''\<rparr>, pods = [p1, p3],
               podsWithAffinity = []\<rparr>"
  have o: "range_order ?m [''B'', ''A'']"
    by (simp add: Pods_def scenario_order_BA)
  have a: "?m ''A'' = Some ?a"
    by (simp add: Pods_def scenario_A)
  have r: "FilteredList (Pods scenario) [''A'', ''B''] [''B'', ''A''] (\<lambda>pod. True) (\<lambda>ls. True)
             = Inr [p2, p1, p3]"
    by (simp add: FilteredList_eq Pods_def scenario_A scenario_B)
  from FilteredList_node_block [OF o a, of "[''A'', ''B'']" "\<lambda>pod. True" "\<lambda>ls. True"]
  have b: "\<exists>before after.
         FilteredList (Pods scenario) [''A'', ''B''] [''B'', ''A''] (\<lambda>pod. True) (\<lambda>ls. True)
           = Inr (before @ [p1, p3] @ after)"
    by auto
  from o a r b show ?thesis
    by (intro conjI)
qed

subsection \<open>The node-info lister and the error channel\<close>

text \<open>
  C5. For every snapshot and node name, \<^verbatim>\<open>Get\<close> returns the node info stored under the
  name, with no error, when the name is a key of \<^verbatim>\<open>NodeInfoMap\<close> (for a snapshot built by
  \<^verbatim>\<open>NewSnapshot\<close>, the node info the construction stored there), and fails with the
  not-found error carrying the requested name when the name is no key. The four listing
  operations never return an error, so \<^verbatim>\<open>Get\<close> is the only operation that can.
\<close>

theorem Get_lookup:
  "(NodeInfoMap s nodeName = Some v \<longrightarrow> Get (NodeInfos s) nodeName = Inr v)
   \<and> (nodeName \<notin> dom (NodeInfoMap s)
        \<longrightarrow> Get (NodeInfos s) nodeName = Inl (NodeInfoNotFound nodeName))
   \<and> (CreateNodeNameToInfoMap synthesize ps ns nodeName = Some v
        \<longrightarrow> Get (NodeInfos (NewSnapshot synthesize ks ps ns)) nodeName = Inr v)
   \<and> \<not> isl (FilteredList p ks1 ks2 podFilter selector)
   \<and> \<not> isl (podLister_List p ks1 ks2 selector)
   \<and> \<not> isl (nodeInfoLister_List n)
   \<and> \<not> isl (HavePodsWithAffinityList n)"
  by (auto simp: Get_def NodeInfos_def NewSnapshot_NodeInfoMap podLister_List_def FilteredList_def
      nodeInfoLister_List_def HavePodsWithAffinityList_def domIff)

text \<open>The scenario: A is found, with pods p1 and p3; C is not.\<close>

theorem Get_lookup_witness:
  "NodeInfoMap scenario ''A''
     = Some \<lparr>identity = ''A'', node = Some \<lparr>node_name = ''A''\<rparr>, pods = [p1, p3],
             podsWithAffinity = []\<rparr>
   \<and> ''C'' \<notin> dom (NodeInfoMap scenario)
   \<and> Get (NodeInfos scenario) ''A''
       = Inr \<lparr>identity = ''A'', node = Some \<lparr>node_name = ''A''\<rparr>, pods = [p1, p3],
              podsWithAffinity = []\<rparr>
   \<and> Get (NodeInfos scenario) ''C'' = Inl (NodeInfoNotFound ''C'')"
proof -
  let ?a = "\<lparr>identity = ''A'', node = Some \<lparr>node_name = ''A''\<rparr>, pods = [p1, p3],
             podsWithAffinity = []\<rparr>"
  have a: "NodeInfoMap scenario ''A'' = Some ?a"
    by (rule scenario_A)
  have c: "''C'' \<notin> dom (NodeInfoMap scenario)"
    by (simp add: scenario_dom)
  have ga: "Get (NodeInfos scenario) ''A'' = Inr ?a"
    using a Get_lookup [of scenario "''A''" ?a] by blast
  have gc: "Get (NodeInfos scenario) ''C'' = Inl (NodeInfoNotFound ''C'')"
    using c Get_lookup [of scenario "''C''"] by blast
  from a c ga gc show ?thesis
    by (intro conjI)
qed

text \<open>
  C8. The pod lister's \<^verbatim>\<open>FilteredList\<close> and \<^verbatim>\<open>List\<close> and the node-info lister's
  \<^verbatim>\<open>List\<close> and \<^verbatim>\<open>HavePodsWithAffinityList\<close> return no error on any snapshot, and on an
  empty snapshot (the one of \<^verbatim>\<open>NewEmptySnapshot\<close>, or the one built from no pod and no
  node) each returns the empty list.
\<close>

theorem listing_total:
  "\<not> isl (FilteredList p ks1 ks2 podFilter selector)
   \<and> \<not> isl (podLister_List p ks1 ks2 selector)
   \<and> \<not> isl (nodeInfoLister_List n)
   \<and> \<not> isl (HavePodsWithAffinityList n)
   \<and> FilteredList (Pods NewEmptySnapshot) ks1 ks2 podFilter selector = Inr []
   \<and> podLister_List (Pods NewEmptySnapshot) ks1 ks2 selector = Inr []
   \<and> nodeInfoLister_List (NodeInfos NewEmptySnapshot) = Inr []
   \<and> HavePodsWithAffinityList (NodeInfos NewEmptySnapshot) = Inr []
   \<and> FilteredList (Pods (NewSnapshot synthesize ks [] [])) ks1 ks2 podFilter selector = Inr []
   \<and> podLister_List (Pods (NewSnapshot synthesize ks [] [])) ks1 ks2 selector = Inr []
   \<and> nodeInfoLister_List (NodeInfos (NewSnapshot synthesize ks [] [])) = Inr []
   \<and> HavePodsWithAffinityList (NodeInfos (NewSnapshot synthesize ks [] [])) = Inr []"
proof -
  have m: "CreateNodeNameToInfoMap synthesize [] [] = Map.empty"
    by (simp add: CreateNodeNameToInfoMap_def)
  have e: "NodeInfoMap NewEmptySnapshot = Map.empty" "NodeInfoList NewEmptySnapshot = []"
    "HavePodsWithAffinityNodeInfoList NewEmptySnapshot = []"
    by (simp_all add: NewEmptySnapshot_def)
  show ?thesis
    by (simp add: podLister_List_def FilteredList_eq nodeInfoLister_List_def
        HavePodsWithAffinityList_def Pods_def NodeInfos_def
        NewSnapshot_NodeInfoMap NewSnapshot_NodeInfoList NewSnapshot_HavePods m e
        range_values_empty)
qed

end
